theory Spec2Isabelle
  imports Main
begin

section \<open>Python values, exceptions and the collaborators of \<open>main.py\<close>\<close>

text \<open>
  Exceptions the script can see. \<open>SystemExit n\<close> is \<open>raise SystemExit(n)\<close>;
  \<open>APIError\<close> is \<open>openai.APIError\<close>, \<open>GithubException\<close> is PyGithub's; \<open>OtherError\<close>
  stands for any exception class the script has no handler for by name.
\<close>

datatype pyerr =
    SystemExit int
  | IndexError
  | KeyError
  | ValueError
  | TypeError
  | UnboundLocalError
  | APIError
  | GithubException
  | OtherError string

text \<open>
  The values \<open>json.loads\<close> and \<open>ast.literal_eval\<close> produce. A dict is an association
  list in insertion order; a float is kept as mantissa and binary exponent (the script
  never inspects one).
\<close>

datatype pyval =
    PNone
  | PBool bool
  | PInt int
  | PFloat int int
  | PStr string
  | PList "pyval list"
  | PDict "(string \<times> pyval) list"

text \<open>
  The standard-library functions the script calls are parameters of the model:
  \<open>json.loads\<close> (\<open>None\<close>: it raises), \<open>json.dumps\<close>, \<open>ast.literal_eval\<close>,
  \<open>int\<close> on a string (\<open>None\<close>: ValueError) and the text an f-string gives for a
  list of strings.
\<close>

record library =
  json_loads :: "string \<Rightarrow> pyval option"
  json_dumps :: "pyval \<Rightarrow> string"
  literal_eval :: "string \<Rightarrow> pyerr + pyval"
  py_int :: "string \<Rightarrow> int option"
  format_list :: "string list \<Rightarrow> string"

text \<open>
  \<open>salacious_code_reviews.constants\<close> is not part of the source at hand: its two
  values are parameters.
\<close>

record constants =
  MAX_TOKENS :: int
  PROMPT :: string

text \<open>One element of \<open>pr.get_files()\<close>: \<open>item.filename\<close> and \<open>item.patch\<close>.\<close>

record changed_file =
  filename :: string
  patch :: "string option"

text \<open>
  What \<open>openai.ChatCompletion.create\<close> does on one call: it raises, or it returns a
  completion whose \<open>choices\<close> carry a message content each (\<open>None\<close> when absent).
\<close>

datatype completion = Raises pyerr | Choices "string option list"

text \<open>The calls that leave the process, in the order they are made.\<close>

datatype event =
    GetRepo string
  | GetPull int
  | GetFiles
  | ChatCompletion string string
  | CreateReview string "pyval list"

text \<open>
  The two services. \<open>chat_completion w n system user\<close> is the answer to the
  \<open>n\<close>-th completion request of the run (counted from 0).
\<close>

record world =
  gh_get_repo :: "string \<Rightarrow> pyerr option"
  gh_get_pull :: "string \<Rightarrow> int \<Rightarrow> pyerr option"
  gh_get_files :: "string \<Rightarrow> int \<Rightarrow> pyerr + changed_file list"
  chat_completion :: "nat \<Rightarrow> string \<Rightarrow> string \<Rightarrow> completion"
  gh_create_review :: "string \<Rightarrow> pyval list \<Rightarrow> pyerr option"

type_synonym env = "string \<Rightarrow> string option"

text \<open>\<open>not os.getenv(X)\<close> holds for an unset variable and for an empty one.\<close>

fun truthy :: "string option \<Rightarrow> bool" where
  "truthy None = False"
| "truthy (Some s) = (s \<noteq> [])"

section \<open>Session set-up\<close>

text \<open>
  Constructing the \<open>Github\<close> client and storing the OpenAI key send nothing over
  the network, so neither function adds a call to the trace.
\<close>

definition get_github_session :: "env \<Rightarrow> pyerr + string" where
  "get_github_session e =
     (case e ''GITHUB_TOKEN'' of
        None \<Rightarrow> Inl (SystemExit 1)
      | Some t \<Rightarrow> if t = [] then Inl (SystemExit 1) else Inr t)"

definition set_openai_key :: "env \<Rightarrow> pyerr + string" where
  "set_openai_key e =
     (case e ''OPENAI_API_KEY'' of
        None \<Rightarrow> Inl (SystemExit 1)
      | Some k \<Rightarrow> if k = [] then Inl (SystemExit 1) else Inr k)"

text \<open>\<open>s.split(sep)\<close> for a one-character separator.\<close>

fun split_on :: "char \<Rightarrow> string \<Rightarrow> string list" where
  "split_on sep [] = [[]]"
| "split_on sep (x # xs) =
     (if x = sep then [] # split_on sep xs
      else (case split_on sep xs of
              [] \<Rightarrow> [[x]]
            | y # ys \<Rightarrow> (x # y) # ys))"

record repo_and_pr =
  repo :: "string list"
  pr :: "int list"

definition get_repo_and_pr :: "library \<Rightarrow> env \<Rightarrow> pyerr + repo_and_pr" where
  "get_repo_and_pr lib e =
     (if \<not> truthy (e ''GITHUB_REF'') then Inl (SystemExit 1)
      else if \<not> truthy (e ''GITHUB_REPOSITORY'') then Inl (SystemExit 1)
      else
        (case (e ''GITHUB_REPOSITORY'', e ''GITHUB_REF'') of
           (Some name, Some ref) \<Rightarrow>
             (let segs = split_on (CHR ''/'') ref in
              if length segs \<le> 2 then Inl IndexError
              else (case py_int lib (segs ! 2) of
                      None \<Rightarrow> Inl ValueError
                    | Some n \<Rightarrow> Inr \<lparr>repo = [name], pr = [n]\<rparr>))
         | _ \<Rightarrow> Inl (SystemExit 1)))"

section \<open>The requester: \<open>submit_to_gpt\<close>\<close>

fun is_completion :: "event \<Rightarrow> bool" where
  "is_completion (ChatCompletion _ _) = True"
| "is_completion _ = False"

definition completions_made :: "event list \<Rightarrow> nat" where
  "completions_made tr = length (filter is_completion tr)"

text \<open>\<open>str(content)\<close>: the text itself, or \<open>None\<close> printed.\<close>

fun py_str :: "string option \<Rightarrow> string" where
  "py_str None = ''None''"
| "py_str (Some s) = s"

text \<open>
  The second \<open>try\<close> block. Its argument is the variable \<open>completion\<close>: \<open>None\<close> when
  the first block caught \<open>openai.APIError\<close> and left it unbound, so that reading it
  raises UnboundLocalError; an empty \<open>choices\<close> raises IndexError; \<open>json.loads\<close> may
  raise. \<open>except Exception\<close> catches all three and \<open>review\<close> stays \<open>{}\<close>.
\<close>

definition parse_review :: "library \<Rightarrow> string option list option \<Rightarrow> pyval" where
  "parse_review lib completion =
     (case completion of
        None \<Rightarrow> PDict []
      | Some [] \<Rightarrow> PDict []
      | Some (content # _) \<Rightarrow>
          (case json_loads lib (py_str content) of
             None \<Rightarrow> PDict []
           | Some review \<Rightarrow> review))"

definition submit_to_gpt ::
  "constants \<Rightarrow> library \<Rightarrow> world \<Rightarrow> string \<Rightarrow> event list \<Rightarrow> (pyerr + pyval) \<times> event list" where
  "submit_to_gpt c lib w code tr =
     (let tr' = tr @ [ChatCompletion (PROMPT c) code] in
      case chat_completion w (completions_made tr) (PROMPT c) code of
        Raises err \<Rightarrow>
          if err = APIError then (Inr (parse_review lib None), tr')
          else (Inl err, tr')
      | Choices cs \<Rightarrow> (Inr (parse_review lib (Some cs)), tr'))"

section \<open>The aggregator: \<open>do_code_review\<close>\<close>

fun starts_with :: "string \<Rightarrow> string \<Rightarrow> bool" where
  "starts_with [] _ = True"
| "starts_with (x # xs) [] = False"
| "starts_with (x # xs) (y # ys) = (x = y \<and> starts_with xs ys)"

fun py_substring :: "string \<Rightarrow> string \<Rightarrow> bool" where
  "py_substring sub [] = (sub = [])"
| "py_substring sub (y # ys) = (starts_with sub (y # ys) \<or> py_substring sub ys)"

text \<open>
  \<open>"comments" in diff_comment\<close>: a key test on a dict, an element test on a list, a
  substring test on a string, TypeError on anything else.
\<close>

fun contains_comments :: "pyval \<Rightarrow> pyerr + bool" where
  "contains_comments (PDict kvs) = Inr (''comments'' \<in> set (map fst kvs))"
| "contains_comments (PList xs) = Inr (PStr ''comments'' \<in> set xs)"
| "contains_comments (PStr s) = Inr (py_substring ''comments'' s)"
| "contains_comments _ = Inl TypeError"

text \<open>\<open>diff_comment["comments"]\<close>: only a dict can be indexed by a string.\<close>

fun getitem_comments :: "pyval \<Rightarrow> pyerr + pyval" where
  "getitem_comments (PDict kvs) =
     (case map_of kvs ''comments'' of None \<Rightarrow> Inl KeyError | Some v \<Rightarrow> Inr v)"
| "getitem_comments _ = Inl TypeError"

record state =
  trace :: "event list"
  comments :: "string list"
  skipped_files :: "string list"

text \<open>\<open>comments.append(json.dumps(diff_comment["comments"]))\<close>\<close>

definition append_comments :: "library \<Rightarrow> pyval \<Rightarrow> state \<Rightarrow> pyerr option \<times> state" where
  "append_comments lib diff_comment st =
     (case getitem_comments diff_comment of
        Inl err \<Rightarrow> (Some err, st)
      | Inr v \<Rightarrow> (None, st\<lparr>comments := comments st @ [json_dumps lib v]\<rparr>))"

definition prompt_of :: "changed_file \<Rightarrow> string \<Rightarrow> string" where
  "prompt_of item p = ''filename: '' @ filename item @ '' ** '' @ p"

text \<open>
  The body of the \<open>for\<close> loop. The guard \<open>not type(item) == "str"\<close> compares a type
  with a string and so always holds. The result is the exception that escapes, if
  any, with the state reached.
\<close>

definition loop_body ::
  "constants \<Rightarrow> library \<Rightarrow> world \<Rightarrow> changed_file \<Rightarrow> state \<Rightarrow> pyerr option \<times> state" where
  "loop_body c lib w item st =
     (case patch item of
        None \<Rightarrow> (None, st)
      | Some p \<Rightarrow>
          if int (length p) > MAX_TOKENS c
          then (None, st\<lparr>skipped_files := skipped_files st @ [filename item]\<rparr>)
          else
            (case submit_to_gpt c lib w (prompt_of item p) (trace st) of
               (Inl err, tr1) \<Rightarrow> (Some err, st\<lparr>trace := tr1\<rparr>)
             | (Inr diff_comment, tr1) \<Rightarrow>
                 (case contains_comments diff_comment of
                    Inl err \<Rightarrow> (Some err, st\<lparr>trace := tr1\<rparr>)
                  | Inr found \<Rightarrow>
                      if found then append_comments lib diff_comment (st\<lparr>trace := tr1\<rparr>)
                      else
                        (case submit_to_gpt c lib w (prompt_of item p) tr1 of
                           (Inl err, tr2) \<Rightarrow> (Some err, st\<lparr>trace := tr2\<rparr>)
                         | (Inr diff_comment2, tr2) \<Rightarrow>
                             (case contains_comments diff_comment2 of
                                Inl err \<Rightarrow> (Some err, st\<lparr>trace := tr2\<rparr>)
                              | Inr found2 \<Rightarrow>
                                  if found2
                                  then append_comments lib diff_comment2 (st\<lparr>trace := tr2\<rparr>)
                                  else (None, st\<lparr>trace := tr2,
                                          skipped_files := skipped_files st @ [filename item]\<rparr>))))))"

fun review_files ::
  "constants \<Rightarrow> library \<Rightarrow> world \<Rightarrow> changed_file list \<Rightarrow> state \<Rightarrow> pyerr option \<times> state" where
  "review_files c lib w [] st = (None, st)"
| "review_files c lib w (item # items) st =
     (case loop_body c lib w item st of
        (Some err, st') \<Rightarrow> (Some err, st')
      | (None, st') \<Rightarrow> review_files c lib w items st')"

section \<open>The submitter: \<open>submit_review\<close>\<close>

text \<open>
  \<open>[comment for comment in x]\<close>: the elements of a list, the keys of a dict, the
  characters of a string; anything else is not iterable.
\<close>

fun py_iter :: "pyval \<Rightarrow> pyerr + pyval list" where
  "py_iter (PList xs) = Inr xs"
| "py_iter (PDict kvs) = Inr (map (\<lambda>kv. PStr (fst kv)) kvs)"
| "py_iter (PStr s) = Inr (map (\<lambda>ch. PStr [ch]) s)"
| "py_iter _ = Inl TypeError"

definition review_body :: "library \<Rightarrow> string list \<Rightarrow> string" where
  "review_body lib skipped =
     ''Salacious has reviewed your code, please see inline comments.'' @
     (if skipped \<noteq> []
      then [CHR 0x0A, CHR 0x0A] @ '' List of skipped files:'' @ [CHR 0x0A] @ format_list lib skipped
      else [])"

definition submit_review ::
  "library \<Rightarrow> world \<Rightarrow> env \<Rightarrow> string list \<Rightarrow> string list \<Rightarrow> event list \<Rightarrow> pyerr option \<times> event list" where
  "submit_review lib w e cs skipped tr =
     (if \<not> truthy (e ''GITHUB_TOKEN'') then (Some (SystemExit 1), tr)
      else
        (case cs of
           [] \<Rightarrow> (Some IndexError, tr)
         | c0 # _ \<Rightarrow>
             (case literal_eval lib c0 of
                Inl err \<Rightarrow> (Some err, tr)
              | Inr v \<Rightarrow>
                  (case py_iter v of
                     Inl err \<Rightarrow> (Some err, tr)
                   | Inr comments_object \<Rightarrow>
                       (let tr' = tr @ [CreateReview (review_body lib skipped) comments_object] in
                        case gh_create_review w (review_body lib skipped) comments_object of
                          None \<Rightarrow> (None, tr')
                        | Some err \<Rightarrow>
                            if err = GithubException then (None, tr') else (Some err, tr'))))))"

definition do_code_review ::
  "constants \<Rightarrow> library \<Rightarrow> world \<Rightarrow> env \<Rightarrow> repo_and_pr \<Rightarrow> pyerr option \<times> event list" where
  "do_code_review c lib w e rp =
     (case repo rp of
        [] \<Rightarrow> (Some IndexError, [])
      | name # _ \<Rightarrow>
          (case gh_get_repo w name of
             Some err \<Rightarrow> (Some err, [GetRepo name])
           | None \<Rightarrow>
               (case pr rp of
                  [] \<Rightarrow> (Some IndexError, [GetRepo name])
                | number # _ \<Rightarrow>
                    (case gh_get_pull w name number of
                       Some err \<Rightarrow> (Some err, [GetRepo name, GetPull number])
                     | None \<Rightarrow>
                         (case gh_get_files w name number of
                            Inl err \<Rightarrow> (Some err, [GetRepo name, GetPull number, GetFiles])
                          | Inr changed_files \<Rightarrow>
                              (case review_files c lib w changed_files
                                      \<lparr>trace = [GetRepo name, GetPull number, GetFiles],
                                       comments = [], skipped_files = []\<rparr> of
                                 (Some err, st) \<Rightarrow> (Some err, trace st)
                               | (None, st) \<Rightarrow>
                                   submit_review lib w e (comments st) (skipped_files st)
                                     (trace st)))))))"

section \<open>The entry point\<close>

definition main :: "constants \<Rightarrow> library \<Rightarrow> world \<Rightarrow> env \<Rightarrow> pyerr option \<times> event list" where
  "main c lib w e =
     (case set_openai_key e of
        Inl err \<Rightarrow> (Some err, [])
      | Inr _ \<Rightarrow>
          (case get_github_session e of
             Inl err \<Rightarrow> (Some err, [])
           | Inr _ \<Rightarrow>
               (case get_repo_and_pr lib e of
                  Inl err \<Rightarrow> (Some err, [])
                | Inr rp \<Rightarrow> do_code_review c lib w e rp)))"

text \<open>
  The status the interpreter exits with: 0 when \<open>main\<close> returns, the argument of an
  escaping \<open>SystemExit\<close>, 1 for any other uncaught exception.
\<close>

fun exit_status :: "pyerr option \<Rightarrow> int" where
  "exit_status None = 0"
| "exit_status (Some (SystemExit n)) = n"
| "exit_status (Some _) = 1"

section \<open>Scenarios\<close>

text \<open>
  Concrete inputs for the worked examples below. The library functions are tabulated
  on the texts that occur in the scenarios: what \<open>json.loads\<close>, \<open>json.dumps\<close>,
  \<open>ast.literal_eval\<close>, \<open>int\<close> and \<open>str\<close> return there (\<open>json.loads\<close> turns the text
  \<open>null\<close> into \<open>None\<close>). Besides the tabulated texts the scenarios only pass
  \<open>not json\<close> to \<open>json.loads\<close> and \<open>main\<close> to \<open>int\<close>, which both raise.
\<close>

definition a_reply :: string where
  \<open>a_reply = ''{"comments": [{"path": "a.py", "body": "nit", "position": 1}]}''\<close>

definition a_comment :: pyval where
  "a_comment = PDict [(''path'', PStr ''a.py''), (''body'', PStr ''nit''), (''position'', PInt 1)]"

definition a_dumped :: string where
  \<open>a_dumped = ''[{"path": "a.py", "body": "nit", "position": 1}]''\<close>

definition d_reply :: string where
  \<open>d_reply = ''{"comments": [{"path": "d.py", "body": "typo", "position": 2}]}''\<close>

definition d_comment :: pyval where
  "d_comment = PDict [(''path'', PStr ''d.py''), (''body'', PStr ''typo''), (''position'', PInt 2)]"

definition d_dumped :: string where
  \<open>d_dumped = ''[{"path": "d.py", "body": "typo", "position": 2}]''\<close>

definition ex_lib :: library where
  "ex_lib =
     \<lparr>json_loads = (\<lambda>s. if s = a_reply then Some (PDict [(''comments'', PList [a_comment])])
                       else if s = d_reply then Some (PDict [(''comments'', PList [d_comment])])
                       else if s = ''null'' then Some PNone
                       else None),
      json_dumps = (\<lambda>v. if v = PList [a_comment] then a_dumped
                       else if v = PList [d_comment] then d_dumped
                       else []),
      literal_eval = (\<lambda>s. if s = a_dumped then Inr (PList [a_comment])
                         else if s = d_dumped then Inr (PList [d_comment])
                         else Inl ValueError),
      py_int = (\<lambda>s. if s = ''42'' then Some 42 else None),
      format_list = (\<lambda>xs. if xs = [''c.py'']
                         then ''['' @ [CHR 0x27] @ ''c.py'' @ [CHR 0x27] @ '']''
                         else [])\<rparr>"

definition ex_constants :: constants where
  "ex_constants = \<lparr>MAX_TOKENS = 10, PROMPT = ''Review this diff.''\<rparr>"

text \<open>
  A hosting platform that answers every call and lists the given files, and a
  completion service that reviews \<open>a.py\<close> and \<open>d.py\<close> and answers anything else
  with text that is not JSON.
\<close>

definition ex_world :: "changed_file list \<Rightarrow> world" where
  "ex_world fs =
     \<lparr>gh_get_repo = (\<lambda>_. None),
      gh_get_pull = (\<lambda>_ _. None),
      gh_get_files = (\<lambda>_ _. Inr fs),
      chat_completion = (\<lambda>n sys user.
         if user = ''filename: a.py ** +x = 1'' then Choices [Some a_reply]
         else if user = ''filename: d.py ** +y = 2'' then Choices [Some d_reply]
         else Choices [Some ''not json'']),
      gh_create_review = (\<lambda>_ _. None)\<rparr>"

text \<open>A completion service whose first call fails with an API error.\<close>

definition flaky_world :: world where
  "flaky_world =
     \<lparr>gh_get_repo = (\<lambda>_. None),
      gh_get_pull = (\<lambda>_ _. None),
      gh_get_files = (\<lambda>_ _. Inr []),
      chat_completion = (\<lambda>n sys user. if n = 0 then Raises APIError else Choices [Some a_reply]),
      gh_create_review = (\<lambda>_ _. None)\<rparr>"

text \<open>
  A completion service that answers by the number of the request alone: a script of
  replies. Three scripts: a timeout (an \<open>openai\<close> error that is not an
  \<open>openai.APIError\<close>) on the first request and a good review afterwards; the JSON
  text \<open>null\<close> on the first request and a good review afterwards; \<open>null\<close> always.
\<close>

definition scripted_world :: "changed_file list \<Rightarrow> (nat \<Rightarrow> completion) \<Rightarrow> world" where
  "scripted_world fs reply =
     \<lparr>gh_get_repo = (\<lambda>_. None),
      gh_get_pull = (\<lambda>_ _. None),
      gh_get_files = (\<lambda>_ _. Inr fs),
      chat_completion = (\<lambda>n sys user. reply n),
      gh_create_review = (\<lambda>_ _. None)\<rparr>"

definition timeout_then_ok :: "nat \<Rightarrow> completion" where
  "timeout_then_ok n = (if n = 0 then Raises (OtherError ''Timeout'') else Choices [Some a_reply])"

definition null_then_ok :: "nat \<Rightarrow> completion" where
  "null_then_ok n = (if n = 0 then Choices [Some ''null''] else Choices [Some a_reply])"

definition always_null :: "nat \<Rightarrow> completion" where
  "always_null n = Choices [Some ''null'']"

definition ex_env :: env where
  "ex_env = [''OPENAI_API_KEY'' \<mapsto> ''sk'', ''GITHUB_TOKEN'' \<mapsto> ''tok'',
             ''GITHUB_REF'' \<mapsto> ''refs/pull/42/merge'', ''GITHUB_REPOSITORY'' \<mapsto> ''o/r'']"

definition file_a :: changed_file where
  "file_a = \<lparr>filename = ''a.py'', patch = Some ''+x = 1''\<rparr>"

definition file_b :: changed_file where
  "file_b = \<lparr>filename = ''b.py'', patch = None\<rparr>"

definition file_c :: changed_file where
  "file_c = \<lparr>filename = ''c.py'', patch = Some ''+0123456789abcdef''\<rparr>"

definition file_d :: changed_file where
  "file_d = \<lparr>filename = ''d.py'', patch = Some ''+y = 2''\<rparr>"

definition file_e :: changed_file where
  "file_e = \<lparr>filename = ''e.py'', patch = Some ''+z = 3''\<rparr>"

text \<open>The state in which \<open>do_code_review\<close> enters its loop.\<close>

definition st0 :: state where
  "st0 = \<lparr>trace = [GetRepo ''o/r'', GetPull 42, GetFiles], comments = [], skipped_files = []\<rparr>"

section \<open>Properties of the requester and of one loop iteration\<close>

lemma submit_to_gpt_trace:
  "snd (submit_to_gpt c lib w code tr) = tr @ [ChatCompletion (PROMPT c) code]"
  by (simp add: submit_to_gpt_def Let_def split: completion.split)

lemma getitem_contains:
  "getitem_comments d = Inr v \<Longrightarrow> contains_comments d = Inr True"
  by (cases d) (auto split: option.splits dest: map_of_SomeD simp: rev_image_eqI)

text \<open>
  C7. A changed file whose patch is absent takes the first branch of the loop body:
  the iteration ends with the state unchanged, so no completion request is made for
  it (the trace of outgoing calls is the same) and nothing is recorded.
\<close>

theorem absent_patch_never_requested:
  "patch item = None \<Longrightarrow>
     loop_body c lib w item st = (None, st)
     \<and> completions_made (trace (snd (loop_body c lib w item st))) = completions_made (trace st)"
  by (simp add: loop_body_def)

theorem absent_patch_never_requested_witness:
  "patch file_b = None
   \<and> loop_body ex_constants ex_lib (ex_world [file_a, file_b, file_c]) file_b st0 = (None, st0)"
  using absent_patch_never_requested [of file_b ex_constants ex_lib "ex_world [file_a, file_b, file_c]" st0]
  by (simp add: file_b_def)

text \<open>
  Two results without comments in a row: two requests, and the filename goes on the
  skip list.
\<close>

lemma two_failures_then_skip:
  assumes "patch item = Some p" and "int (length p) \<le> MAX_TOKENS c"
    and "submit_to_gpt c lib w (prompt_of item p) (trace st) = (Inr d1, tr1)"
    and "contains_comments d1 = Inr False"
    and "submit_to_gpt c lib w (prompt_of item p) tr1 = (Inr d2, tr2)"
    and "contains_comments d2 = Inr False"
  shows "loop_body c lib w item st =
           (None, st\<lparr>trace := trace st @ [ChatCompletion (PROMPT c) (prompt_of item p),
                                          ChatCompletion (PROMPT c) (prompt_of item p)],
                     skipped_files := skipped_files st @ [filename item]\<rparr>)"
proof -
  have t1: "tr1 = trace st @ [ChatCompletion (PROMPT c) (prompt_of item p)]"
    using submit_to_gpt_trace [of c lib w "prompt_of item p" "trace st"] assms(3) by simp
  have t2: "tr2 = tr1 @ [ChatCompletion (PROMPT c) (prompt_of item p)]"
    using submit_to_gpt_trace [of c lib w "prompt_of item p" tr1] assms(5) by simp
  have body: "loop_body c lib w item st =
           (None, st\<lparr>trace := tr2, skipped_files := skipped_files st @ [filename item]\<rparr>)"
    using assms by (simp add: loop_body_def)
  show ?thesis
    using body t1 t2 by simp
qed

text \<open>
  C4, at a reviewable file whose requests are both answered with the JSON text
  \<open>null\<close>. \<open>json.loads\<close> returns \<open>None\<close>, a result without comments, and
  \<open>submit_to_gpt\<close>, declared to return a dict, hands it on; the test
  \<open>"comments" in diff_comment\<close> then raises TypeError. One completion request has been
  made, not two; the filename is not put on the skip list; the exception escapes
  \<open>do_code_review\<close> and \<open>main\<close>, so the next file is never looked at, and the process
  exits with status 1.
\<close>

theorem null_reply_escapes:
  "json_loads ex_lib ''null'' = Some PNone
   \<and> fst (submit_to_gpt ex_constants ex_lib (scripted_world [file_e, file_a] always_null)
            (prompt_of file_e ''+z = 3'') (trace st0)) = Inr PNone
   \<and> contains_comments PNone = Inl TypeError
   \<and> loop_body ex_constants ex_lib (scripted_world [file_e, file_a] always_null) file_e st0
       = (Some TypeError,
          \<lparr>trace = [GetRepo ''o/r'', GetPull 42, GetFiles,
                    ChatCompletion ''Review this diff.'' ''filename: e.py ** +z = 3''],
           comments = [], skipped_files = []\<rparr>)
   \<and> main ex_constants ex_lib (scripted_world [file_e, file_a] always_null) ex_env
       = (Some TypeError,
          [GetRepo ''o/r'', GetPull 42, GetFiles,
           ChatCompletion ''Review this diff.'' ''filename: e.py ** +z = 3''])
   \<and> exit_status (fst (main ex_constants ex_lib (scripted_world [file_e, file_a] always_null) ex_env)) = 1"
  by code_simp

text \<open>
  C5, as the code has it. For a reviewable file whose first requester call returns a
  result in which \<open>"comments" in result\<close> is false (the \<open>{}\<close> that follows an
  \<open>openai.APIError\<close> or an undecodable reply, or any other dict without the key) and
  whose second call returns a dict with the key \<open>comments\<close>, the loop body makes
  exactly two completion requests, appends the serialised comments of the second
  result to the accumulated list, and leaves the skip list as it was. A first call
  that raises any exception other than \<open>openai.APIError\<close> is not retried: the
  exception escapes after that one request.
\<close>

theorem retry_success_is_accepted:
  assumes "patch item = Some p" and "int (length p) \<le> MAX_TOKENS c"
  shows "(submit_to_gpt c lib w (prompt_of item p) (trace st) = (Inr d1, tr1)
          \<and> contains_comments d1 = Inr False
          \<and> submit_to_gpt c lib w (prompt_of item p) tr1 = (Inr d2, tr2)
          \<and> getitem_comments d2 = Inr v
          \<longrightarrow> loop_body c lib w item st =
                (None, st\<lparr>trace := trace st @ [ChatCompletion (PROMPT c) (prompt_of item p),
                                               ChatCompletion (PROMPT c) (prompt_of item p)],
                          comments := comments st @ [json_dumps lib v]\<rparr>)
              \<and> completions_made (trace (snd (loop_body c lib w item st)))
                  = completions_made (trace st) + 2
              \<and> skipped_files (snd (loop_body c lib w item st)) = skipped_files st)
       \<and> (chat_completion w (completions_made (trace st)) (PROMPT c) (prompt_of item p) = Raises err
          \<and> err \<noteq> APIError
          \<longrightarrow> loop_body c lib w item st =
                (Some err, st\<lparr>trace := trace st @ [ChatCompletion (PROMPT c) (prompt_of item p)]\<rparr>))"
proof (intro conjI impI)
  assume h: "submit_to_gpt c lib w (prompt_of item p) (trace st) = (Inr d1, tr1)
          \<and> contains_comments d1 = Inr False
          \<and> submit_to_gpt c lib w (prompt_of item p) tr1 = (Inr d2, tr2)
          \<and> getitem_comments d2 = Inr v"
  have t1: "tr1 = trace st @ [ChatCompletion (PROMPT c) (prompt_of item p)]"
    using submit_to_gpt_trace [of c lib w "prompt_of item p" "trace st"] h by simp
  have t2: "tr2 = tr1 @ [ChatCompletion (PROMPT c) (prompt_of item p)]"
    using submit_to_gpt_trace [of c lib w "prompt_of item p" tr1] h by simp
  have found: "contains_comments d2 = Inr True"
    using h getitem_contains by blast
  have body: "loop_body c lib w item st =
           (None, st\<lparr>trace := tr2, comments := comments st @ [json_dumps lib v]\<rparr>)"
    using assms h found by (simp add: loop_body_def append_comments_def)
  show "loop_body c lib w item st =
                (None, st\<lparr>trace := trace st @ [ChatCompletion (PROMPT c) (prompt_of item p),
                                               ChatCompletion (PROMPT c) (prompt_of item p)],
                          comments := comments st @ [json_dumps lib v]\<rparr>)"
    using body t1 t2 by simp
  show "completions_made (trace (snd (loop_body c lib w item st))) = completions_made (trace st) + 2"
    using body t1 t2 by (simp add: completions_made_def)
  show "skipped_files (snd (loop_body c lib w item st)) = skipped_files st"
    using body by simp
next
  assume e: "chat_completion w (completions_made (trace st)) (PROMPT c) (prompt_of item p) = Raises err
          \<and> err \<noteq> APIError"
  then have "submit_to_gpt c lib w (prompt_of item p) (trace st)
               = (Inl err, trace st @ [ChatCompletion (PROMPT c) (prompt_of item p)])"
    by (simp add: submit_to_gpt_def)
  then show "loop_body c lib w item st =
                (Some err, st\<lparr>trace := trace st @ [ChatCompletion (PROMPT c) (prompt_of item p)]\<rparr>)"
    using assms by (simp add: loop_body_def)
qed

theorem retry_success_is_accepted_witness:
  "patch file_a = Some ''+x = 1'' \<and> int (length ''+x = 1'') \<le> MAX_TOKENS ex_constants
   \<and> fst (submit_to_gpt ex_constants ex_lib flaky_world (prompt_of file_a ''+x = 1'') (trace st0))
       = Inr (PDict [])
   \<and> contains_comments (PDict []) = Inr False
   \<and> getitem_comments (PDict [(''comments'', PList [a_comment])]) = Inr (PList [a_comment])
   \<and> loop_body ex_constants ex_lib flaky_world file_a st0 =
        (None, st0\<lparr>trace := trace st0 @
                       [ChatCompletion (PROMPT ex_constants) (prompt_of file_a ''+x = 1''),
                        ChatCompletion (PROMPT ex_constants) (prompt_of file_a ''+x = 1'')],
                    comments := [a_dumped]\<rparr>)
   \<and> chat_completion (scripted_world [file_a] timeout_then_ok) (completions_made (trace st0))
        (PROMPT ex_constants) (prompt_of file_a ''+x = 1'') = Raises (OtherError ''Timeout'')
   \<and> OtherError ''Timeout'' \<noteq> APIError
   \<and> loop_body ex_constants ex_lib (scripted_world [file_a] timeout_then_ok) file_a st0 =
        (Some (OtherError ''Timeout''),
         st0\<lparr>trace := trace st0 @
                [ChatCompletion (PROMPT ex_constants) (prompt_of file_a ''+x = 1'')]\<rparr>)"
proof -
  let ?cc = "ChatCompletion (PROMPT ex_constants) (prompt_of file_a ''+x = 1'')"
  have h1: "patch file_a = Some ''+x = 1''" by (simp add: file_a_def)
  have h2: "int (length ''+x = 1'') \<le> MAX_TOKENS ex_constants" by (simp add: ex_constants_def)
  have h3: "submit_to_gpt ex_constants ex_lib flaky_world (prompt_of file_a ''+x = 1'') (trace st0)
              = (Inr (PDict []), trace st0 @ [?cc])"
    by (simp add: submit_to_gpt_def flaky_world_def st0_def completions_made_def parse_review_def)
  have h4: "contains_comments (PDict []) = Inr False" by simp
  have h5: "submit_to_gpt ex_constants ex_lib flaky_world (prompt_of file_a ''+x = 1'')
              (trace st0 @ [?cc]) = (Inr (PDict [(''comments'', PList [a_comment])]), trace st0 @ [?cc, ?cc])"
    by (simp add: submit_to_gpt_def flaky_world_def st0_def completions_made_def parse_review_def
        ex_lib_def)
  have h6: "getitem_comments (PDict [(''comments'', PList [a_comment])]) = Inr (PList [a_comment])"
    by simp
  have h7: "chat_completion (scripted_world [file_a] timeout_then_ok) (completions_made (trace st0))
        (PROMPT ex_constants) (prompt_of file_a ''+x = 1'') = Raises (OtherError ''Timeout'')"
    by (simp add: scripted_world_def timeout_then_ok_def completions_made_def st0_def)
  have h8: "OtherError ''Timeout'' \<noteq> APIError" by simp
  have dump: "json_dumps ex_lib (PList [a_comment]) = a_dumped" by (simp add: ex_lib_def)
  have cm: "comments st0 = []" by (simp add: st0_def)
  note ok = retry_success_is_accepted [OF h1 h2, where lib = ex_lib and w = flaky_world
      and st = st0 and ?d1.0 = "PDict []" and ?tr1.0 = "trace st0 @ [?cc]"
      and ?d2.0 = "PDict [(''comments'', PList [a_comment])]" and ?tr2.0 = "trace st0 @ [?cc, ?cc]"
      and v = "PList [a_comment]", THEN conjunct1, rule_format]
  note esc = retry_success_is_accepted [OF h1 h2, where lib = ex_lib
      and w = "scripted_world [file_a] timeout_then_ok" and st = st0
      and err = "OtherError ''Timeout''", THEN conjunct2, rule_format]
  have a: "loop_body ex_constants ex_lib flaky_world file_a st0 =
        (None, st0\<lparr>trace := trace st0 @ [?cc, ?cc], comments := [a_dumped]\<rparr>)"
    using ok h3 h4 h5 h6 dump cm by simp
  have b: "loop_body ex_constants ex_lib (scripted_world [file_a] timeout_then_ok) file_a st0 =
        (Some (OtherError ''Timeout''), st0\<lparr>trace := trace st0 @ [?cc]\<rparr>)"
    using esc h7 h8 by simp
  show ?thesis
    using a b h1 h2 h3 h4 h6 h7 h8 by simp
qed

text \<open>
  A first attempt can fail without a second one being made: when the first request
  times out, or is answered with \<open>null\<close>, the loop body makes one request and an
  exception escapes, although the second request would have been answered with a
  good review.
\<close>

theorem retry_counterexample:
  "chat_completion (scripted_world [file_a] timeout_then_ok) 0 (PROMPT ex_constants)
       (prompt_of file_a ''+x = 1'') = Raises (OtherError ''Timeout'')
   \<and> chat_completion (scripted_world [file_a] timeout_then_ok) 1 (PROMPT ex_constants)
       (prompt_of file_a ''+x = 1'') = Choices [Some a_reply]
   \<and> loop_body ex_constants ex_lib (scripted_world [file_a] timeout_then_ok) file_a
        \<lparr>trace = [], comments = [], skipped_files = []\<rparr>
       = (Some (OtherError ''Timeout''),
          \<lparr>trace = [ChatCompletion ''Review this diff.'' ''filename: a.py ** +x = 1''],
           comments = [], skipped_files = []\<rparr>)
   \<and> chat_completion (scripted_world [file_a] null_then_ok) 0 (PROMPT ex_constants)
       (prompt_of file_a ''+x = 1'') = Choices [Some ''null'']
   \<and> chat_completion (scripted_world [file_a] null_then_ok) 1 (PROMPT ex_constants)
       (prompt_of file_a ''+x = 1'') = Choices [Some a_reply]
   \<and> loop_body ex_constants ex_lib (scripted_world [file_a] null_then_ok) file_a
        \<lparr>trace = [], comments = [], skipped_files = []\<rparr>
       = (Some TypeError,
          \<lparr>trace = [ChatCompletion ''Review this diff.'' ''filename: a.py ** +x = 1''],
           comments = [], skipped_files = []\<rparr>)"
  by code_simp







section \<open>Start-up\<close>

text \<open>
  C8. If one of \<open>OPENAI_API_KEY\<close>, \<open>GITHUB_TOKEN\<close>, \<open>GITHUB_REF\<close> and
  \<open>GITHUB_REPOSITORY\<close> is unset, \<open>main\<close> ends with \<open>SystemExit(1)\<close>, so the process
  exits with status 1, and the trace of calls to the hosting platform and to the
  completion service is empty.
\<close>

theorem missing_env_exits_before_calls:
  assumes "e ''OPENAI_API_KEY'' = None \<or> e ''GITHUB_TOKEN'' = None
           \<or> e ''GITHUB_REF'' = None \<or> e ''GITHUB_REPOSITORY'' = None"
  shows "main c lib w e = (Some (SystemExit 1), [])
         \<and> exit_status (fst (main c lib w e)) = 1"
proof -
  have m: "main c lib w e = (Some (SystemExit 1), [])"
    using assms
    by (auto simp: main_def set_openai_key_def get_github_session_def get_repo_and_pr_def
          split: option.splits sum.splits if_splits)
  show ?thesis by (simp add: m)
qed

theorem missing_env_exits_before_calls_witness:
  "(ex_env(''GITHUB_REPOSITORY'' := None)) ''GITHUB_REPOSITORY'' = None
   \<and> main ex_constants ex_lib (ex_world [file_a]) (ex_env(''GITHUB_REPOSITORY'' := None))
       = (Some (SystemExit 1), [])
   \<and> (ex_env(''OPENAI_API_KEY'' := None)) ''OPENAI_API_KEY'' = None
   \<and> main ex_constants ex_lib (ex_world [file_a]) (ex_env(''OPENAI_API_KEY'' := None))
       = (Some (SystemExit 1), [])"
  using missing_env_exits_before_calls [of "ex_env(''GITHUB_REPOSITORY'' := None)" ex_constants ex_lib "ex_world [file_a]"]
    missing_env_exits_before_calls [of "ex_env(''OPENAI_API_KEY'' := None)" ex_constants ex_lib "ex_world [file_a]"]
  by simp

text \<open>
  C10, as the code has it. \<open>get_repo_and_pr\<close> raises \<open>SystemExit(1)\<close> exactly when
  \<open>GITHUB_REF\<close> or \<open>GITHUB_REPOSITORY\<close> is unset or empty. When both are set and
  non-empty, a \<open>GITHUB_REF\<close> with fewer than three \<open>/\<close>-separated segments raises
  IndexError, and one whose third segment \<open>int\<close> rejects raises ValueError.
\<close>

theorem get_repo_and_pr_errors:
  "(get_repo_and_pr lib e = Inl (SystemExit 1)
      \<longleftrightarrow> \<not> truthy (e ''GITHUB_REF'') \<or> \<not> truthy (e ''GITHUB_REPOSITORY''))
   \<and> (truthy (e ''GITHUB_REF'') \<and> truthy (e ''GITHUB_REPOSITORY'') \<and> e ''GITHUB_REF'' = Some ref \<longrightarrow>
        (length (split_on (CHR ''/'') ref) \<le> 2 \<longrightarrow> get_repo_and_pr lib e = Inl IndexError)
      \<and> (2 < length (split_on (CHR ''/'') ref) \<and> py_int lib (split_on (CHR ''/'') ref ! 2) = None
           \<longrightarrow> get_repo_and_pr lib e = Inl ValueError))"
  by (cases "e ''GITHUB_REF''"; cases "e ''GITHUB_REPOSITORY''")
     (auto simp: get_repo_and_pr_def Let_def split: option.splits)

theorem get_repo_and_pr_errors_witness:
  "truthy ((ex_env(''GITHUB_REF'' \<mapsto> ''refs/pull'')) ''GITHUB_REF'')
   \<and> truthy ((ex_env(''GITHUB_REF'' \<mapsto> ''refs/pull'')) ''GITHUB_REPOSITORY'')
   \<and> length (split_on (CHR ''/'') ''refs/pull'') \<le> 2
   \<and> get_repo_and_pr ex_lib (ex_env(''GITHUB_REF'' \<mapsto> ''refs/pull'')) = Inl IndexError
   \<and> truthy ((ex_env(''GITHUB_REF'' \<mapsto> ''refs/heads/main'')) ''GITHUB_REF'')
   \<and> truthy ((ex_env(''GITHUB_REF'' \<mapsto> ''refs/heads/main'')) ''GITHUB_REPOSITORY'')
   \<and> py_int ex_lib (split_on (CHR ''/'') ''refs/heads/main'' ! 2) = None
   \<and> get_repo_and_pr ex_lib (ex_env(''GITHUB_REF'' \<mapsto> ''refs/heads/main'')) = Inl ValueError
   \<and> \<not> truthy ((ex_env(''GITHUB_REF'' \<mapsto> '''')) ''GITHUB_REF'')
   \<and> get_repo_and_pr ex_lib (ex_env(''GITHUB_REF'' \<mapsto> '''')) = Inl (SystemExit 1)"
  using get_repo_and_pr_errors [of ex_lib "ex_env(''GITHUB_REF'' \<mapsto> ''refs/pull'')" "''refs/pull''"]
    get_repo_and_pr_errors [of ex_lib "ex_env(''GITHUB_REF'' \<mapsto> ''refs/heads/main'')" "''refs/heads/main''"]
    get_repo_and_pr_errors [of ex_lib "ex_env(''GITHUB_REF'' \<mapsto> '''')" "''''"]
  by (simp add: ex_env_def ex_lib_def)

text \<open>
  \<open>GITHUB_REF\<close> set with no third segment does not always end in IndexError: with
  \<open>GITHUB_REPOSITORY\<close> unset, and with \<open>GITHUB_REF\<close> set to the empty string, the
  function raises \<open>SystemExit(1)\<close>.
\<close>

theorem get_repo_and_pr_counterexample:
  "[''GITHUB_REF'' \<mapsto> ''refs/pull''] ''GITHUB_REF'' = Some ''refs/pull''
   \<and> length (split_on (CHR ''/'') ''refs/pull'') = 2
   \<and> get_repo_and_pr ex_lib [''GITHUB_REF'' \<mapsto> ''refs/pull''] = Inl (SystemExit 1)
   \<and> [''GITHUB_REF'' \<mapsto> '''', ''GITHUB_REPOSITORY'' \<mapsto> ''o/r''] ''GITHUB_REF'' = Some ''''
   \<and> length (split_on (CHR ''/'') '''') = 1
   \<and> get_repo_and_pr ex_lib [''GITHUB_REF'' \<mapsto> '''', ''GITHUB_REPOSITORY'' \<mapsto> ''o/r'']
        = Inl (SystemExit 1)"
  by (simp add: get_repo_and_pr_def)

section \<open>The whole loop\<close>

lemma review_files_append:
  "review_files c lib w (xs @ ys) st =
     (case review_files c lib w xs st of
        (Some err, s) \<Rightarrow> (Some err, s)
      | (None, s) \<Rightarrow> review_files c lib w ys s)"
  by (induction xs arbitrary: st) (auto split: prod.splits option.splits)

lemma review_files_prefix:
  assumes "review_files c lib w items st = (None, st')" and "k < length items"
  shows "\<exists>s s'. review_files c lib w (take k items) st = (None, s)
               \<and> loop_body c lib w (items ! k) s = (None, s')
               \<and> review_files c lib w (take (Suc k) items) st = (None, s')"
proof -
  have split3: "items = take k items @ [items ! k] @ drop (Suc k) items"
    using assms(2) by (simp add: Cons_nth_drop_Suc)
  obtain r s where p: "review_files c lib w (take k items) st = (r, s)"
    by (cases "review_files c lib w (take k items) st")
  have whole: "review_files c lib w (take k items @ [items ! k] @ drop (Suc k) items) st = (None, st')"
    using assms(1) split3 by simp
  have r: "r = None"
    using whole p by (cases r) (simp_all add: review_files_append)
  obtain r' s' where b: "loop_body c lib w (items ! k) s = (r', s')"
    by (cases "loop_body c lib w (items ! k) s")
  have r': "r' = None"
    using whole p r b by (cases r') (simp_all add: review_files_append)
  have "take (Suc k) items = take k items @ [items ! k]"
    using assms(2) by (simp add: take_Suc_conv_app_nth)
  then have "review_files c lib w (take (Suc k) items) st = (None, s')"
    using p r b r' by (simp add: review_files_append)
  with p r b r' show ?thesis by blast
qed

lemma loop_body_cases:
  assumes "loop_body c lib w item s = (None, s')"
  shows "(case patch item of
            None \<Rightarrow> s' = s
          | Some p \<Rightarrow>
              if int (length p) > MAX_TOKENS c
              then s' = s\<lparr>skipped_files := skipped_files s @ [filename item]\<rparr>
              else
                (\<exists>v. ((\<exists>d. fst (submit_to_gpt c lib w (prompt_of item p) (trace s)) = Inr d
                            \<and> getitem_comments d = Inr v)
                       \<and> s' = s\<lparr>trace := trace s @ [ChatCompletion (PROMPT c) (prompt_of item p)],
                                 comments := comments s @ [json_dumps lib v]\<rparr>)
                    \<or> ((\<exists>d. fst (submit_to_gpt c lib w (prompt_of item p) (trace s)) = Inr d
                            \<and> contains_comments d = Inr False)
                       \<and> (\<exists>d. fst (submit_to_gpt c lib w (prompt_of item p)
                                       (trace s @ [ChatCompletion (PROMPT c) (prompt_of item p)])) = Inr d
                            \<and> getitem_comments d = Inr v)
                       \<and> s' = s\<lparr>trace := trace s @ [ChatCompletion (PROMPT c) (prompt_of item p),
                                                    ChatCompletion (PROMPT c) (prompt_of item p)],
                                 comments := comments s @ [json_dumps lib v]\<rparr>))
                \<or> ((\<exists>d. fst (submit_to_gpt c lib w (prompt_of item p) (trace s)) = Inr d
                          \<and> contains_comments d = Inr False)
                    \<and> (\<exists>d. fst (submit_to_gpt c lib w (prompt_of item p)
                                    (trace s @ [ChatCompletion (PROMPT c) (prompt_of item p)])) = Inr d
                          \<and> contains_comments d = Inr False)
                    \<and> s' = s\<lparr>trace := trace s @ [ChatCompletion (PROMPT c) (prompt_of item p),
                                                 ChatCompletion (PROMPT c) (prompt_of item p)],
                              skipped_files := skipped_files s @ [filename item]\<rparr>))"
proof (cases "patch item")
  case None
  with assms show ?thesis by (simp add: loop_body_def)
next
  case (Some p)
  show ?thesis
  proof (cases "int (length p) > MAX_TOKENS c")
    case True
    with Some assms show ?thesis by (simp add: loop_body_def)
  next
    case False
    let ?cc = "ChatCompletion (PROMPT c) (prompt_of item p)"
    obtain r1 tr1 where s1: "submit_to_gpt c lib w (prompt_of item p) (trace s) = (r1, tr1)"
      by (cases "submit_to_gpt c lib w (prompt_of item p) (trace s)")
    have t1: "tr1 = trace s @ [?cc]"
      using submit_to_gpt_trace [of c lib w "prompt_of item p" "trace s"] s1 by simp
    obtain r2 tr2 where s2: "submit_to_gpt c lib w (prompt_of item p) (trace s @ [?cc]) = (r2, tr2)"
      by (cases "submit_to_gpt c lib w (prompt_of item p) (trace s @ [?cc])")
    have t2: "tr2 = trace s @ [?cc, ?cc]"
      using submit_to_gpt_trace [of c lib w "prompt_of item p" "trace s @ [?cc]"] s2 by simp
    show ?thesis
      using assms Some False s1 s2 t1 t2
      by (auto simp: loop_body_def append_comments_def split: sum.splits if_splits)
  qed
qed

lemma loop_body_outcome:
  assumes "loop_body c lib w item st = (None, st')"
  shows "(patch item = None \<and> comments st' = comments st \<and> skipped_files st' = skipped_files st)
       \<or> (patch item \<noteq> None \<and> (\<exists>s. comments st' = comments st @ [s])
            \<and> skipped_files st' = skipped_files st)
       \<or> (patch item \<noteq> None \<and> comments st' = comments st
            \<and> skipped_files st' = skipped_files st @ [filename item])"
  using assms
  by (auto simp: loop_body_def append_comments_def split: option.splits if_splits sum.splits prod.splits)

lemma review_files_counts:
  assumes "review_files c lib w items st = (None, st')"
  shows "length (comments st') + length (skipped_files st')
           + length (filter (\<lambda>f. patch f = None) items)
         = length (comments st) + length (skipped_files st) + length items"
  using assms
proof (induction items arbitrary: st)
  case Nil
  then show ?case by simp
next
  case (Cons item items)
  from Cons.prems obtain st1 where
    b: "loop_body c lib w item st = (None, st1)" and
    r: "review_files c lib w items st1 = (None, st')"
    by (auto split: prod.splits option.splits)
  note ih = Cons.IH [OF r]
  from loop_body_outcome [OF b] ih show ?case by auto
qed

text \<open>
  C2, as the code has it. In a run whose loop no exception leaves, every changed
  file has exactly one outcome, fixed by its patch and by what the requester
  returns. Let \<open>s\<close> be the state when the loop reaches the file and \<open>s'\<close> the state
  when it leaves it.
  \<^item> Patch absent: nothing is recorded, \<open>s' = s\<close>.
  \<^item> Patch longer than \<open>MAX_TOKENS\<close>: the file's own name is appended to the skip
    list and nothing else changes.
  \<^item> Otherwise, if the first request returns a dict with comments, or the first
    returns a result without comments and the second a dict with comments: that
    batch, serialised, is appended to the comments, and the skip list is unchanged.
  \<^item> Otherwise both requests returned a result without comments: the file's own
    name is appended to the skip list, and the comments are unchanged.
  So a file without a patch is neither accepted nor on the skip list, and the
  accepted batches, the skip-list entries and the files without a patch add up to
  the changed files.
\<close>

theorem every_file_one_outcome:
  assumes "review_files c lib w items st = (None, st')"
    and "k < length items" and "item = items ! k"
  shows "(\<exists>s s'. review_files c lib w (take k items) st = (None, s)
            \<and> review_files c lib w (take (Suc k) items) st = (None, s')
            \<and> (case patch item of
                  None \<Rightarrow> s' = s
                | Some p \<Rightarrow>
                    if int (length p) > MAX_TOKENS c
                    then s' = s\<lparr>skipped_files := skipped_files s @ [filename item]\<rparr>
                    else
                      (\<exists>v. ((\<exists>d. fst (submit_to_gpt c lib w (prompt_of item p) (trace s)) = Inr d
                                  \<and> getitem_comments d = Inr v)
                             \<and> s' = s\<lparr>trace := trace s @ [ChatCompletion (PROMPT c) (prompt_of item p)],
                                       comments := comments s @ [json_dumps lib v]\<rparr>)
                          \<or> ((\<exists>d. fst (submit_to_gpt c lib w (prompt_of item p) (trace s)) = Inr d
                                  \<and> contains_comments d = Inr False)
                             \<and> (\<exists>d. fst (submit_to_gpt c lib w (prompt_of item p)
                                             (trace s @ [ChatCompletion (PROMPT c) (prompt_of item p)])) = Inr d
                                  \<and> getitem_comments d = Inr v)
                             \<and> s' = s\<lparr>trace := trace s @ [ChatCompletion (PROMPT c) (prompt_of item p),
                                                          ChatCompletion (PROMPT c) (prompt_of item p)],
                                       comments := comments s @ [json_dumps lib v]\<rparr>))
                      \<or> ((\<exists>d. fst (submit_to_gpt c lib w (prompt_of item p) (trace s)) = Inr d
                                \<and> contains_comments d = Inr False)
                          \<and> (\<exists>d. fst (submit_to_gpt c lib w (prompt_of item p)
                                          (trace s @ [ChatCompletion (PROMPT c) (prompt_of item p)])) = Inr d
                                \<and> contains_comments d = Inr False)
                          \<and> s' = s\<lparr>trace := trace s @ [ChatCompletion (PROMPT c) (prompt_of item p),
                                                       ChatCompletion (PROMPT c) (prompt_of item p)],
                                    skipped_files := skipped_files s @ [filename item]\<rparr>)))
       \<and> length (comments st') + length (skipped_files st')
            + length (filter (\<lambda>f. patch f = None) items)
          = length (comments st) + length (skipped_files st) + length items"
proof -
  from review_files_prefix [OF assms(1,2)] obtain s s' where
    p: "review_files c lib w (take k items) st = (None, s)" and
    b: "loop_body c lib w (items ! k) s = (None, s')" and
    q: "review_files c lib w (take (Suc k) items) st = (None, s')"
    by blast
  have b': "loop_body c lib w item s = (None, s')"
    using b assms(3) by simp
  note cases = loop_body_cases [OF b']
  note counts = review_files_counts [OF assms(1)]
  from p q cases counts show ?thesis by blast
qed

text \<open>
  The scenario of the specification: \<open>a.py\<close> small and reviewed at once, \<open>b.py\<close>
  without a patch, \<open>c.py\<close> over the limit.
\<close>

lemma scenario_abc:
  "review_files ex_constants ex_lib (ex_world [file_a, file_b, file_c]) [file_a, file_b, file_c] st0
     = (None, \<lparr>trace = [GetRepo ''o/r'', GetPull 42, GetFiles,
                        ChatCompletion ''Review this diff.'' ''filename: a.py ** +x = 1''],
              comments = [a_dumped], skipped_files = [''c.py'']\<rparr>)"
  by code_simp

theorem every_file_one_outcome_witness:
  "review_files ex_constants ex_lib (ex_world [file_a, file_b, file_c]) [file_a, file_b, file_c] st0
     = (None, \<lparr>trace = [GetRepo ''o/r'', GetPull 42, GetFiles,
                        ChatCompletion ''Review this diff.'' ''filename: a.py ** +x = 1''],
              comments = [a_dumped], skipped_files = [''c.py'']\<rparr>)
   \<and> (2::nat) < length [file_a, file_b, file_c]
   \<and> file_c = [file_a, file_b, file_c] ! 2
   \<and> patch file_c = Some ''+0123456789abcdef''
   \<and> int (length ''+0123456789abcdef'') > MAX_TOKENS ex_constants
   \<and> skipped_files (snd (review_files ex_constants ex_lib (ex_world [file_a, file_b, file_c])
                            (take (Suc 2) [file_a, file_b, file_c]) st0))
       = skipped_files (snd (review_files ex_constants ex_lib (ex_world [file_a, file_b, file_c])
                            (take 2 [file_a, file_b, file_c]) st0)) @ [''c.py'']"
proof -
  let ?w = "ex_world [file_a, file_b, file_c]"
  let ?fs = "[file_a, file_b, file_c]"
  have k: "(2::nat) < length ?fs" by simp
  have it: "file_c = ?fs ! 2" by simp
  have pc: "patch file_c = Some ''+0123456789abcdef''" by (simp add: file_c_def)
  have big: "int (length ''+0123456789abcdef'') > MAX_TOKENS ex_constants"
    by (simp add: ex_constants_def)
  have nm: "filename file_c = ''c.py''" by (simp add: file_c_def)
  from every_file_one_outcome [OF scenario_abc k it] obtain s s' where
    p: "review_files ex_constants ex_lib ?w (take 2 ?fs) st0 = (None, s)" and
    q: "review_files ex_constants ex_lib ?w (take (Suc 2) ?fs) st0 = (None, s')" and
    o: "s' = s\<lparr>skipped_files := skipped_files s @ [filename file_c]\<rparr>"
    using pc big by auto
  have "skipped_files (snd (review_files ex_constants ex_lib ?w (take (Suc 2) ?fs) st0))
        = skipped_files (snd (review_files ex_constants ex_lib ?w (take 2 ?fs) st0)) @ [''c.py'']"
    unfolding p q using o nm by simp
  with scenario_abc k it pc big show ?thesis by blast
qed

text \<open>
  In that scenario the skip list is \<open>["c.py"]\<close>: \<open>b.py\<close>, whose patch is absent, is
  neither accepted nor in the skip list. And in a run over \<open>a.py\<close> and \<open>d.py\<close> whose
  first request times out, the exception leaves the loop: neither file is accepted
  or put on the skip list, and \<open>d.py\<close> is never looked at.
\<close>

theorem skip_list_counterexample:
  "patch file_b = None \<and> filename file_b = ''b.py''
   \<and> skipped_files (snd (review_files ex_constants ex_lib (ex_world [file_a, file_b, file_c])
                            [file_a, file_b, file_c] st0)) = [''c.py'']
   \<and> comments (snd (review_files ex_constants ex_lib (ex_world [file_a, file_b, file_c])
                            [file_a, file_b, file_c] st0)) = [a_dumped]
   \<and> review_files ex_constants ex_lib (scripted_world [file_a, file_d] timeout_then_ok)
        [file_a, file_d] st0
       = (Some (OtherError ''Timeout''),
          \<lparr>trace = [GetRepo ''o/r'', GetPull 42, GetFiles,
                    ChatCompletion ''Review this diff.'' ''filename: a.py ** +x = 1''],
           comments = [], skipped_files = []\<rparr>)"
proof -
  have run2: "review_files ex_constants ex_lib (scripted_world [file_a, file_d] timeout_then_ok)
        [file_a, file_d] st0
       = (Some (OtherError ''Timeout''),
          \<lparr>trace = [GetRepo ''o/r'', GetPull 42, GetFiles,
                    ChatCompletion ''Review this diff.'' ''filename: a.py ** +x = 1''],
           comments = [], skipped_files = []\<rparr>)"
    by code_simp
  show ?thesis unfolding scenario_abc run2 by (simp add: file_b_def)
qed

section \<open>Submission\<close>

text \<open>\<open>submit_review\<close> reads \<open>comments[0]\<close> and nothing after it.\<close>

lemma submit_review_reads_first_only:
  "submit_review lib w e (c0 # rest) skipped tr = submit_review lib w e [c0] skipped tr"
  by (simp add: submit_review_def)

text \<open>
  C1, at a run with two reviewed files. The loop accumulates both serialised
  batches, \<open>a.py\<close>'s and \<open>d.py\<close>'s, but the review that is submitted carries the
  comments of \<open>a.py\<close> alone, not the concatenation of the two lists.
\<close>

theorem only_first_batch_submitted:
  "comments (snd (review_files ex_constants ex_lib (ex_world [file_a, file_d]) [file_a, file_d] st0))
     = [a_dumped, d_dumped]
   \<and> literal_eval ex_lib a_dumped = Inr (PList [a_comment])
   \<and> literal_eval ex_lib d_dumped = Inr (PList [d_comment])
   \<and> main ex_constants ex_lib (ex_world [file_a, file_d]) ex_env =
       (None, [GetRepo ''o/r'', GetPull 42, GetFiles,
               ChatCompletion ''Review this diff.'' ''filename: a.py ** +x = 1'',
               ChatCompletion ''Review this diff.'' ''filename: d.py ** +y = 2'',
               CreateReview ''Salacious has reviewed your code, please see inline comments.''
                 [a_comment]])
   \<and> [a_comment] \<noteq> [a_comment] @ [d_comment]"
  by code_simp

text \<open>
  C3, at a run whose only file gets text that is not JSON on both attempts. The file
  is put on the skip list, but \<open>comments\<close> is empty when \<open>submit_review\<close> reads
  \<open>comments[0]\<close>: IndexError escapes \<open>do_code_review\<close> and \<open>main\<close>, no review is
  submitted, and the process exits with status 1.
\<close>

theorem malformed_twice_escapes:
  "json_loads ex_lib ''not json'' = None
   \<and> skipped_files (snd (review_files ex_constants ex_lib (ex_world [file_e]) [file_e] st0)) = [''e.py'']
   \<and> main ex_constants ex_lib (ex_world [file_e]) ex_env =
       (Some IndexError, [GetRepo ''o/r'', GetPull 42, GetFiles,
               ChatCompletion ''Review this diff.'' ''filename: e.py ** +z = 3'',
               ChatCompletion ''Review this diff.'' ''filename: e.py ** +z = 3''])
   \<and> exit_status (fst (main ex_constants ex_lib (ex_world [file_e]) ex_env)) = 1"
  by code_simp

end
